theory Spec2Isabelle
  imports Main "HOL-Library.AList"
begin

section \<open>Data model\<close>

text \<open>
  The repository is a small local version-control tool written in Go. The sources at
  hand are the tracked-files registry of package \<^verbatim>\<open>tracker\<close>
  (\<^verbatim>\<open>tracker/tracked-files.go\<close>), its table printer in package
  \<^verbatim>\<open>display\<close> and the tests of the packages \<^verbatim>\<open>tracker\<close>,
  \<^verbatim>\<open>initializer\<close> and \<^verbatim>\<open>diff\<close>.

  A Go \<^verbatim>\<open>string\<close> is a sequence of bytes and \<^verbatim>\<open>len\<close> counts
  bytes; \<^typ>\<open>string\<close> is a list of 8-bit characters, so lengths and slices agree.
\<close>

type_synonym bytes = string
type_synonym path = string

text \<open>
  Go errors are values. The constructors below are the errors the modelled code can
  meet: the operating system's, the codecs', the directory walker's sentinel
  \<^verbatim>\<open>fs.SkipDir\<close>, the sentinels of package \<^verbatim>\<open>qwerror\<close>, and
  \<^verbatim>\<open>fmt.Errorf("msg: %w", err)\<close> as \<open>Wrapped msg err\<close>. A nil pointer
  dereference (a panic) is \<open>NilDeref\<close>.
\<close>

datatype error =
    ErrNotExist
  | ErrPermission
  | ErrIO
  | ErrCorrupt
  | ErrSyntax
  | ErrUnsupported
  | SkipDir
  | NilDeref
  | RepoNotFound
  | RepoAlreadyInit
  | GrpAlreadyTracked
  | FileNotTracked
  | ArgumentMismatch
  | ObjectNotFound
  | VersionNotFound
  | Wrapped string error

text \<open>\<^verbatim>\<open>type TrackFile struct { FilePath string }\<close> of package tracker.\<close>

record TrackFile =
  FilePath :: string

text \<open>
  \<^verbatim>\<open>type TrackFiles map[string]*TrackFile\<close>. A Go map has no order and one value per
  key; it is modelled as an association list that is only read through \<^const>\<open>map_of\<close>
  and only written through \<^const>\<open>AList.update\<close>, so that a concrete registry can be
  serialised and evaluated.
\<close>

type_synonym TrackFiles = "(string \<times> TrackFile) list"

definition FileName :: string where
  "FileName = ''_track_files.qwe''"

definition QweDir :: string where
  "QweDir = ''.qwe''"

definition NewTrackFile :: "string \<Rightarrow> TrackFile" where
  "NewTrackFile filepath = \<lparr>FilePath = filepath\<rparr>"

section \<open>The world outside the repository's code\<close>

text \<open>
  What the code calls but does not define is a parameter of the model: the standard
  library's \<^verbatim>\<open>filepath.Join\<close>, \<^verbatim>\<open>json.MarshalIndent\<close> and
  \<^verbatim>\<open>json.Unmarshal\<close> (at the type \<^verbatim>\<open>TrackFiles\<close>), the byte-level codec
  behind package \<^verbatim>\<open>compressor\<close>, and \<^verbatim>\<open>qweutils.Hasher\<close>. The theorems
  hold for every such environment, under the hypotheses they state.
\<close>

record env =
  Join :: "path \<Rightarrow> path \<Rightarrow> path"
  MarshalIndent :: "TrackFiles \<Rightarrow> error + bytes"
  Unmarshal :: "bytes \<Rightarrow> error + TrackFiles"
  compress :: "bytes \<Rightarrow> bytes"
  decompress :: "bytes \<Rightarrow> error + bytes"
  Hasher :: "string \<Rightarrow> string"

text \<open>
  The file system is a map from paths to contents. Every system call can fail: the field
  \<open>failing\<close> says, per call and path, with which error (\<open>None\<close>: the call works).
  Permission bits and directories are not modelled; a missing parent directory or a
  refused permission is a failing call.
\<close>

datatype sysop = OpStat | OpReadFile | OpWriteFile | OpRename | OpCompress | OpDecompress

record world =
  files :: "path \<rightharpoonup> bytes"
  failing :: "sysop \<Rightarrow> path \<Rightarrow> error option"

text \<open>
  The code is sequential and every call changes the disk in place, also when a later
  call fails. The state threaded through the model is the current world together with
  every earlier world, most recent first: the points at which another observer (or a
  crash) can see the disk.
\<close>

record fs_state =
  now :: world
  earlier :: "world list"

definition step :: "world \<Rightarrow> fs_state \<Rightarrow> fs_state" where
  "step w s = \<lparr>now = w, earlier = now s # earlier s\<rparr>"

definition put_file :: "path \<Rightarrow> bytes \<Rightarrow> world \<Rightarrow> world" where
  "put_file p b w = w\<lparr>files := (files w)(p \<mapsto> b)\<rparr>"

text \<open>
  \<^verbatim>\<open>os.WriteFile\<close> opens the file with \<^verbatim>\<open>O_WRONLY|O_CREATE|O_TRUNC\<close> and then
  writes the data: the file is first empty, then complete (Go documents that the call
  takes several system calls).
\<close>

definition os_WriteFile :: "path \<Rightarrow> bytes \<Rightarrow> fs_state \<Rightarrow> error option \<times> fs_state" where
  "os_WriteFile name data s =
     (case failing (now s) OpWriteFile name of
        Some err \<Rightarrow> (Some err, s)
      | None \<Rightarrow>
          (let s1 = step (put_file name [] (now s)) s
           in (None, step (put_file name data (now s1)) s1)))"

text \<open>\<^verbatim>\<open>os.Rename\<close> replaces the new path by the old one in a single step.\<close>

definition os_Rename :: "path \<Rightarrow> path \<Rightarrow> fs_state \<Rightarrow> error option \<times> fs_state" where
  "os_Rename oldpath newpath s =
     (case failing (now s) OpRename oldpath of
        Some err \<Rightarrow> (Some err, s)
      | None \<Rightarrow>
          (case failing (now s) OpRename newpath of
             Some err \<Rightarrow> (Some err, s)
           | None \<Rightarrow>
               (case files (now s) oldpath of
                  None \<Rightarrow> (Some ErrNotExist, s)
                | Some b \<Rightarrow>
                    (None, step ((now s)\<lparr>files := (files (now s))(oldpath := None, newpath \<mapsto> b)\<rparr>) s))))"

definition os_Stat :: "path \<Rightarrow> fs_state \<Rightarrow> error option" where
  "os_Stat name s =
     (case failing (now s) OpStat name of
        Some err \<Rightarrow> Some err
      | None \<Rightarrow> (case files (now s) name of None \<Rightarrow> Some ErrNotExist | Some b \<Rightarrow> None))"

definition os_ReadFile :: "path \<Rightarrow> fs_state \<Rightarrow> error + bytes" where
  "os_ReadFile name s =
     (case failing (now s) OpReadFile name of
        Some err \<Rightarrow> Inl err
      | None \<Rightarrow> (case files (now s) name of None \<Rightarrow> Inl ErrNotExist | Some b \<Rightarrow> Inr b))"

definition os_IsNotExist :: "error \<Rightarrow> bool" where
  "os_IsNotExist err = (err = ErrNotExist)"

definition os_IsPermission :: "error \<Rightarrow> bool" where
  "os_IsPermission err = (err = ErrPermission)"

text \<open>
  Modelled from the spec: package \<^verbatim>\<open>compressor\<close> (\<^verbatim>\<open>CompressFile\<close>,
  \<^verbatim>\<open>DecompressFile\<close>) is not among the sources. The spec gives its contract:
  "compress(path), decompress(path) - in-place", failing with an I/O failure or a
  corrupt payload. The tracker's own test states that decompressing a path with no file
  fails ("tries to decompress first, which will fail for non-existent files"). Each call
  is one step on the disk.
\<close>

definition CompressFile :: "env \<Rightarrow> path \<Rightarrow> fs_state \<Rightarrow> error option \<times> fs_state" where
  "CompressFile E name s =
     (case failing (now s) OpCompress name of
        Some err \<Rightarrow> (Some err, s)
      | None \<Rightarrow>
          (case files (now s) name of
             None \<Rightarrow> (Some ErrNotExist, s)
           | Some b \<Rightarrow> (None, step (put_file name (compress E b) (now s)) s)))"

definition DecompressFile :: "env \<Rightarrow> path \<Rightarrow> fs_state \<Rightarrow> error option \<times> fs_state" where
  "DecompressFile E name s =
     (case failing (now s) OpDecompress name of
        Some err \<Rightarrow> (Some err, s)
      | None \<Rightarrow>
          (case files (now s) name of
             None \<Rightarrow> (Some ErrNotExist, s)
           | Some c \<Rightarrow>
               (case decompress E c of
                  Inl err \<Rightarrow> (Some err, s)
                | Inr b \<Rightarrow> (None, step (put_file name b (now s)) s))))"

section \<open>Package tracker: the tracked-files registry\<close>

text \<open>\<^verbatim>\<open>func (tf TrackFiles) Save(filename string) error\<close>\<close>

definition Save :: "env \<Rightarrow> TrackFiles \<Rightarrow> string \<Rightarrow> fs_state \<Rightarrow> error option \<times> fs_state" where
  "Save E tf filename s =
     (case MarshalIndent E tf of
        Inl err \<Rightarrow> (Some (Wrapped ''marshal tracked files'' err), s)
      | Inr data \<Rightarrow>
          (let filePath = Join E QweDir filename;
               tmp = filePath @ ''.tmp''
           in case os_WriteFile tmp data s of
                (Some err, s1) \<Rightarrow> (Some (Wrapped ''write temp file'' err), s1)
              | (None, s1) \<Rightarrow>
                  (case os_Rename tmp filePath s1 of
                     (Some err, s2) \<Rightarrow> (Some (Wrapped ''rename temp file'' err), s2)
                   | (None, s2) \<Rightarrow>
                       (case CompressFile E filePath s2 of
                          (Some err, s3) \<Rightarrow> (Some (Wrapped ''compress file'' err), s3)
                        | (None, s3) \<Rightarrow> (None, s3)))))"

text \<open>\<^verbatim>\<open>func InitTrackedFiles() error\<close>\<close>

definition InitTrackedFiles :: "env \<Rightarrow> fs_state \<Rightarrow> error option \<times> fs_state" where
  "InitTrackedFiles E s =
     (let filePath = Join E QweDir FileName
      in case os_WriteFile filePath ''{}'' s of
           (Some err, s1) \<Rightarrow> (Some (Wrapped ''create tracked files file'' err), s1)
         | (None, s1) \<Rightarrow>
             (case CompressFile E filePath s1 of
                (Some err, s2) \<Rightarrow> (Some (Wrapped ''compress file'' err), s2)
              | (None, s2) \<Rightarrow> (None, s2)))"

text \<open>
  \<^verbatim>\<open>func LoadTrackedFilesFromFile(filename string) (TrackFiles, error)\<close>. The file is
  decompressed first; only the last step compresses it again.
\<close>

definition LoadTrackedFilesFromFile ::
  "env \<Rightarrow> string \<Rightarrow> fs_state \<Rightarrow> (error + TrackFiles) \<times> fs_state" where
  "LoadTrackedFilesFromFile E filename s =
     (case DecompressFile E filename s of
        (Some err, s1) \<Rightarrow> (Inl err, s1)
      | (None, s1) \<Rightarrow>
          (case os_Stat filename s1 of
             Some err \<Rightarrow>
               (if os_IsNotExist err then (Inr [], s1)
                else (Inl (Wrapped ''stat file'' err), s1))
           | None \<Rightarrow>
               (case os_ReadFile filename s1 of
                  Inl err \<Rightarrow> (Inl (Wrapped ''read file'' err), s1)
                | Inr data \<Rightarrow>
                    (case Unmarshal E data of
                       Inl err \<Rightarrow> (Inl (Wrapped ''unmarshal tracked files'' err), s1)
                     | Inr trackedFiles \<Rightarrow>
                         (case CompressFile E filename s1 of
                            (Some err, s2) \<Rightarrow> (Inl err, s2)
                          | (None, s2) \<Rightarrow> (Inr trackedFiles, s2))))))"


subsection \<open>Scanning the working directory\<close>

text \<open>
  What \<^verbatim>\<open>filepath.WalkDir\<close> sees of the disk: an entry is a file (anything that is not
  a directory) or a directory with its name, its entries in the order
  \<^verbatim>\<open>os.ReadDir\<close> returns them, and the error of that call, if any.
\<close>

datatype dirent = File string | Dir string "dirent list" "error option"

fun Name :: "dirent \<Rightarrow> string" where
  "Name (File n) = n"
| "Name (Dir n dirs rerr) = n"

fun IsDir :: "dirent \<Rightarrow> bool" where
  "IsDir (File n) = False"
| "IsDir (Dir n dirs rerr) = True"

text \<open>\<^verbatim>\<open>var excludedDirs = map[string]struct{}{".git": {}, ".qwe": {}}\<close>\<close>

definition excludedDirs :: "string set" where
  "excludedDirs = {''.git'', ''.qwe''}"

definition isExcludedDir :: "string \<Rightarrow> bool" where
  "isExcludedDir name = (name \<in> excludedDirs)"

text \<open>
  \<^verbatim>\<open>fs.WalkDirFunc\<close>, with the state the closure writes to. The entry is \<open>None\<close>
  where Go passes nil (the first \<^verbatim>\<open>os.Lstat\<close> failed).
\<close>

type_synonym 's WalkDirFunc = "path \<Rightarrow> dirent option \<Rightarrow> error option \<Rightarrow> 's \<Rightarrow> error option \<times> 's"

text \<open>
  Every call of the function is logged with its path: the second component of the
  walker's state is the list of visited paths, in order. The code does not have it.
\<close>

definition invoke ::
  "'s WalkDirFunc \<Rightarrow> path \<Rightarrow> dirent option \<Rightarrow> error option \<Rightarrow> 's \<times> path list \<Rightarrow>
     error option \<times> ('s \<times> path list)" where
  "invoke fn p d err st = (case fn p d err (fst st) of (r, s') \<Rightarrow> (r, (s', snd st @ [p])))"

text \<open>
  \<^verbatim>\<open>filepath.walkDir\<close> of the standard library: the function is called on the entry;
  on a directory that it did not skip, the entries are read (a read error is reported
  by a second call) and walked in order; \<^verbatim>\<open>SkipDir\<close> from an entry ends the loop over
  its siblings.
\<close>

fun walkDir ::
  "env \<Rightarrow> 's WalkDirFunc \<Rightarrow> path \<Rightarrow> dirent \<Rightarrow> 's \<times> path list \<Rightarrow> error option \<times> ('s \<times> path list)"
  and walkEntries ::
  "env \<Rightarrow> 's WalkDirFunc \<Rightarrow> path \<Rightarrow> dirent list \<Rightarrow> 's \<times> path list \<Rightarrow> error option \<times> ('s \<times> path list)"
  where
  "walkDir E fn p (File n) st = invoke fn p (Some (File n)) None st"
| "walkDir E fn p (Dir n dirs rerr) st =
     (case invoke fn p (Some (Dir n dirs rerr)) None st of
        (Some err, st1) \<Rightarrow> (if err = SkipDir then (None, st1) else (Some err, st1))
      | (None, st1) \<Rightarrow>
          (case rerr of
             None \<Rightarrow> walkEntries E fn p dirs st1
           | Some e \<Rightarrow>
               (case invoke fn p (Some (Dir n dirs rerr)) (Some e) st1 of
                  (Some err, st2) \<Rightarrow> (if err = SkipDir then (None, st2) else (Some err, st2))
                | (None, st2) \<Rightarrow> walkEntries E fn p dirs st2)))"
| "walkEntries E fn p [] st = (None, st)"
| "walkEntries E fn p (d1 # ds) st =
     (case walkDir E fn (Join E p (Name d1)) d1 st of
        (Some err, st1) \<Rightarrow> (if err = SkipDir then (None, st1) else (Some err, st1))
      | (None, st1) \<Rightarrow> walkEntries E fn p ds st1)"

definition WalkDir ::
  "env \<Rightarrow> 's WalkDirFunc \<Rightarrow> path \<Rightarrow> error + dirent \<Rightarrow> 's \<times> path list \<Rightarrow>
     error option \<times> ('s \<times> path list)" where
  "WalkDir E fn root lstat st =
     (case (case lstat of
              Inl e \<Rightarrow> invoke fn root None (Some e) st
            | Inr info \<Rightarrow> walkDir E fn root info st) of
        (Some err, st1) \<Rightarrow> (if err = SkipDir then (None, st1) else (Some err, st1))
      | (None, st1) \<Rightarrow> (None, st1))"

text \<open>
  The closure passed to \<^verbatim>\<open>WalkDir\<close> by \<^verbatim>\<open>findTrackedFilesInCurrDir\<close>.
  \<open>tracker\<close> is the key set of the map that \<^verbatim>\<open>GetTracker(FileTrackerType)\<close>
  returns (it is not among the sources). The messages it prints are left out.
\<close>

definition walkFn :: "env \<Rightarrow> string set \<Rightarrow> TrackFiles WalkDirFunc" where
  "walkFn E tracker p d err trackedFiles =
     (case err of
        Some e \<Rightarrow>
          (if os_IsPermission e then (None, trackedFiles) else (Some e, trackedFiles))
      | None \<Rightarrow>
          (case d of
             None \<Rightarrow> (Some NilDeref, trackedFiles)
           | Some d \<Rightarrow>
               (if IsDir d then
                  (if isExcludedDir (Name d) then (Some SkipDir, trackedFiles)
                   else (None, trackedFiles))
                else
                  (let fileId = Hasher E (Name d)
                   in if fileId \<in> tracker
                      then (None, AList.update fileId (NewTrackFile p) trackedFiles)
                      else (None, trackedFiles)))))"

text \<open>
  \<^verbatim>\<open>func findTrackedFilesInCurrDir(dir string) (TrackFiles, error)\<close>, given what
  \<^verbatim>\<open>GetTracker\<close> and \<^verbatim>\<open>os.Lstat(dir)\<close> return. The second component of the
  result is the list of visited paths.
\<close>

definition findTrackedFilesInCurrDir ::
  "env \<Rightarrow> error + string set \<Rightarrow> path \<Rightarrow> error + dirent \<Rightarrow> (error + TrackFiles) \<times> path list" where
  "findTrackedFilesInCurrDir E getTracker dir lstat =
     (case getTracker of
        Inl err \<Rightarrow> (Inl err, [])
      | Inr tracker \<Rightarrow>
          (case WalkDir E (walkFn E tracker) dir lstat ([], []) of
             (Some err, st) \<Rightarrow> (Inl err, snd st)
           | (None, st) \<Rightarrow> (Inr (fst st), snd st)))"

section \<open>Package display: the table of tracked files\<close>

definition MaxCommitMessageLen :: nat where
  "MaxCommitMessageLen = 60"

definition CommitMessageTruncLen :: nat where
  "CommitMessageTruncLen = 57"

text \<open>\<^verbatim>\<open>func truncateMsg(msg string) string\<close>; \<^verbatim>\<open>msg[:n]\<close> is the first n bytes.\<close>

definition truncateMsg :: "string \<Rightarrow> string" where
  "truncateMsg msg =
     (if length msg > MaxCommitMessageLen then take CommitMessageTruncLen msg @ ''...''
      else msg)"

section \<open>Groups and the diff engine\<close>

text \<open>
  The packages \<^verbatim>\<open>initializer\<close> and \<^verbatim>\<open>diff\<close> are present only through their
  tests. What follows is written from the specification, and from the tests where they
  fix a detail the specification leaves open.
\<close>

text \<open>
  Modelled from the spec: the data model of section 3 (the declarations are not among the
  sources). "Version - { versionId, commitMessage, timestamp, files: map<identifier,
  ObjectRef> }", with the field names the tests use.
\<close>

record Version =
  VersionID :: string
  CommitMessage :: string
  TimeStamp :: string
  Files :: "(string \<times> string) list"

text \<open>
  Modelled from the spec: "Group - { groupId, groupName, versions: map<versionId, Version>,
  versionOrder: ordered sequence of versionId (oldest to newest), current: versionId }".
\<close>

record Group =
  GroupID :: string
  GroupName :: string
  Versions :: "(string \<times> Version) list"
  VersionOrder :: "string list"
  Current :: string

text \<open>
  Modelled from the spec: "TrackedFile - { identifier, currentPath, commitCount,
  lastCommitMessage, lastCommitTimestamp }"; the identifier is the key of the registry.
\<close>

record TrackedFile =
  currentPath :: path
  commitCount :: nat
  lastCommitMessage :: string
  lastCommitTimestamp :: string

text \<open>
  Modelled from the spec: the durable state the group and diff operations read and write:
  whether the repository is initialized ("isInitialized() -> bool"), the group tracker
  ("groupId -> Group"), the Tracker Registry ("file identifier -> tracking metadata"), the
  Group/Version History the diff engine reads (versions by id, oldest first), the Object
  Store ("get(ObjectRef) -> bytes") and the files of the working tree.
\<close>

record repo =
  initialized :: bool
  groupTracker :: "(string \<times> Group) list"
  registry :: "(string \<times> TrackedFile) list"
  history :: "(string \<times> Version) list"
  objects :: "(string \<times> bytes) list"
  worktree :: "(path \<times> bytes) list"

text \<open>
  Modelled from the spec: \<^verbatim>\<open>GroupInit\<close> of package initializer is not among the sources.
  "Uninitialized (group name not present in the group tracker) -> GroupInit(name) -> Active
  with exactly one Version ("Initial Tracking", empty files, timestamp = now), current = that
  version's id. Calling GroupInit on an already-present name fails with
  GroupAlreadyTracked; calling any group operation before the repository itself is
  initialized fails with RepoNotFound." The group is stored under the hash of its name, as
  the test looks it up. The new version's id and the time are arguments.
\<close>

definition GroupInit :: "env \<Rightarrow> string \<Rightarrow> string \<Rightarrow> string \<Rightarrow> repo \<Rightarrow> error + repo" where
  "GroupInit E vid stamp groupName r =
     (if \<not> initialized r then Inl RepoNotFound
      else
        (let groupID = Hasher E groupName
         in case map_of (groupTracker r) groupID of
              Some g \<Rightarrow> Inl GrpAlreadyTracked
            | None \<Rightarrow>
                Inr (r\<lparr>groupTracker :=
                  AList.update groupID
                    \<lparr>GroupID = groupID, GroupName = groupName,
                     Versions = [(vid, \<lparr>VersionID = vid, CommitMessage = ''Initial Tracking'',
                                         TimeStamp = stamp, Files = []\<rparr>)],
                     VersionOrder = [vid], Current = vid\<rparr>
                    (groupTracker r)\<rparr>)))"

text \<open>
  Modelled from the spec: "identify(name) -> Identifier", "a deterministic digest of a
  file's base name". The base name is what follows the last slash.
\<close>

definition basename :: "path \<Rightarrow> string" where
  "basename p = rev (takeWhile (\<lambda>c. c \<noteq> CHR ''/'') (rev p))"

definition identify :: "env \<Rightarrow> path \<Rightarrow> string" where
  "identify E p = Hasher E (basename p)"

text \<open>
  Modelled from the spec: "the file's last committed snapshot", the reference the newest
  version of the history holds for the identifier.
\<close>

fun lastSnapshot :: "string \<Rightarrow> Version list \<Rightarrow> string option" where
  "lastSnapshot ident [] = None"
| "lastSnapshot ident (v # vs) =
     (case lastSnapshot ident vs of
        Some ref \<Rightarrow> Some ref
      | None \<Rightarrow> map_of (Files v) ident)"

text \<open>
  Modelled from the spec: "get(ObjectRef) -> bytes fails with ObjectNotFound if the
  reference is unknown".
\<close>

definition get_object :: "repo \<Rightarrow> string \<Rightarrow> error + bytes" where
  "get_object r ref = (case map_of (objects r) ref of None \<Rightarrow> Inl ObjectNotFound | Some b \<Rightarrow> Inr b)"

text \<open>
  Modelled from the spec: "the file's snapshot in version A": "versionAt(groupId,
  versionId) returns the requested Version or fails with VersionNotFound", and a version
  with "no entry in the referenced Version's files map" fails with FileNotTracked.
\<close>

definition snapshotAt :: "repo \<Rightarrow> string \<Rightarrow> string \<Rightarrow> error + bytes" where
  "snapshotAt r ident vid =
     (case map_of (history r) vid of
        None \<Rightarrow> Inl VersionNotFound
      | Some v \<Rightarrow>
          (case map_of (Files v) ident of
             None \<Rightarrow> Inl FileNotTracked
           | Some ref \<Rightarrow> get_object r ref))"

text \<open>
  Modelled from the spec: \<^verbatim>\<open>Diff\<close> of package diff is not among the sources. "Both
  version ids empty: compare the file's last committed snapshot against its current
  on-disk content. Both non-empty: compare the file's snapshot in version A against its
  snapshot in version B. Exactly one empty: fails with ArgumentMismatch. If the target
  file's Identifier has no record in the Tracker Registry, fails with FileNotTracked."
  The argument check comes first: the test of the argument shapes runs outside any
  repository and expects that error. The result is the pair of byte strings to compare;
  the edit script computed from them is not modelled. The spec does not say what a
  working-tree diff does when no version holds the file; the model answers
  VersionNotFound.
\<close>

definition Diff :: "env \<Rightarrow> path \<Rightarrow> string \<Rightarrow> string \<Rightarrow> repo \<Rightarrow> error + bytes \<times> bytes" where
  "Diff E filePath versionIdA versionIdB r =
     (if (versionIdA = []) \<noteq> (versionIdB = []) then Inl ArgumentMismatch
      else if \<not> initialized r then Inl RepoNotFound
      else
        (let ident = identify E filePath
         in case map_of (registry r) ident of
              None \<Rightarrow> Inl FileNotTracked
            | Some tracked \<Rightarrow>
                (if versionIdA = [] then
                   (case lastSnapshot ident (map snd (history r)) of
                      None \<Rightarrow> Inl VersionNotFound
                    | Some ref \<Rightarrow>
                        (case get_object r ref of
                           Inl err \<Rightarrow> Inl err
                         | Inr old \<Rightarrow>
                             (case map_of (worktree r) (currentPath tracked) of
                                None \<Rightarrow> Inl ErrNotExist
                              | Some cur \<Rightarrow> Inr (old, cur))))
                 else
                   (case snapshotAt r ident versionIdA of
                      Inl err \<Rightarrow> Inl err
                    | Inr a \<Rightarrow>
                        (case snapshotAt r ident versionIdB of
                           Inl err \<Rightarrow> Inl err
                         | Inr b \<Rightarrow> Inr (a, b))))))"

section \<open>A reference environment\<close>

text \<open>
  One concrete environment, on which the model is run at concrete inputs. Its JSON codec
  writes a registry the way \<^verbatim>\<open>json.MarshalIndent(tf, "", "  ")\<close> lays it out (without
  sorting the keys and without escapes) and reads back objects of that shape: a strict
  subset of what \<^verbatim>\<open>json.Unmarshal\<close> accepts. Its compressor marks a compressed
  file with a leading byte. \<^verbatim>\<open>Join\<close> puts a slash between two clean path elements.
  No general theorem depends on it.
\<close>

datatype token = LBrace | RBrace | Colon | Comma | Str string

fun json_lex :: "string \<Rightarrow> token list option"
  and json_lex_str :: "string \<Rightarrow> string \<Rightarrow> token list option" where
  "json_lex [] = Some []"
| "json_lex (c # cs) =
     (if c = CHR ''{'' then map_option (Cons LBrace) (json_lex cs)
      else if c = CHR ''}'' then map_option (Cons RBrace) (json_lex cs)
      else if c = CHR '':'' then map_option (Cons Colon) (json_lex cs)
      else if c = CHR '','' then map_option (Cons Comma) (json_lex cs)
      else if c = CHR 0x22 then json_lex_str [] cs
      else if c = CHR '' '' \<or> c = CHR 0x09 \<or> c = CHR 0x0A \<or> c = CHR 0x0D then json_lex cs
      else None)"
| "json_lex_str acc [] = None"
| "json_lex_str acc (c # cs) =
     (if c = CHR 0x22 then map_option (Cons (Str acc)) (json_lex cs)
      else if c = CHR 0x5C then None
      else json_lex_str (acc @ [c]) cs)"

fun json_entries :: "token list \<Rightarrow> (string \<times> TrackFile) list option" where
  "json_entries (Str k # Colon # LBrace # Str f # Colon # Str v # RBrace # rest) =
     (if f = ''filepath'' then
        (case rest of
           [RBrace] \<Rightarrow> Some [(k, NewTrackFile v)]
         | Comma # others \<Rightarrow> map_option (Cons (k, NewTrackFile v)) (json_entries others)
         | _ \<Rightarrow> None)
      else None)"
| "json_entries _ = None"

text \<open>A key that occurs twice keeps its last value, as in a Go map.\<close>

definition ref_Unmarshal :: "bytes \<Rightarrow> error + TrackFiles" where
  "ref_Unmarshal data =
     (case json_lex data of
        None \<Rightarrow> Inl ErrSyntax
      | Some ts \<Rightarrow>
          (case ts of
             [LBrace, RBrace] \<Rightarrow> Inr []
           | LBrace # rest \<Rightarrow>
               (case json_entries rest of
                  None \<Rightarrow> Inl ErrSyntax
                | Some kvs \<Rightarrow> Inr (foldl (\<lambda>acc kv. AList.update (fst kv) (snd kv) acc) [] kvs))
           | _ \<Rightarrow> Inl ErrSyntax))"

definition json_member :: "string \<times> TrackFile \<Rightarrow> bytes" where
  "json_member kv =
     ''  '' @ [CHR 0x22] @ fst kv @ [CHR 0x22] @ '': {'' @ [CHR 0x0A] @
     ''    '' @ [CHR 0x22] @ ''filepath'' @ [CHR 0x22] @ '': '' @
       [CHR 0x22] @ FilePath (snd kv) @ [CHR 0x22] @ [CHR 0x0A] @ ''  }''"

fun json_members :: "TrackFiles \<Rightarrow> bytes" where
  "json_members [] = []"
| "json_members [kv] = json_member kv"
| "json_members (kv # others) = json_member kv @ '','' @ [CHR 0x0A] @ json_members others"

definition ref_json :: "TrackFiles \<Rightarrow> bytes" where
  "ref_json tf =
     (if tf = [] then ''{}''
      else ''{'' @ [CHR 0x0A] @ json_members tf @ [CHR 0x0A] @ ''}'')"

definition ref_MarshalIndent :: "TrackFiles \<Rightarrow> error + bytes" where
  "ref_MarshalIndent tf = Inr (ref_json tf)"

fun ref_decompress :: "bytes \<Rightarrow> error + bytes" where
  "ref_decompress [] = Inl ErrCorrupt"
| "ref_decompress (c # b) = (if c = CHR ''Z'' then Inr b else Inl ErrCorrupt)"

definition ref_env :: env where
  "ref_env =
     \<lparr>Join = (\<lambda>dir name. dir @ ''/'' @ name),
      MarshalIndent = ref_MarshalIndent,
      Unmarshal = ref_Unmarshal,
      compress = Cons (CHR ''Z''),
      decompress = ref_decompress,
      Hasher = (\<lambda>name. ''#'' @ name)\<rparr>"

section \<open>Vocabulary of the theorems\<close>

text \<open>A world in which no system call fails.\<close>

definition healthy :: "world \<Rightarrow> bool" where
  "healthy w = (\<forall>call p. failing w call p = None)"

text \<open>A healthy disk holding the listed files, and a state with no earlier worlds.\<close>

definition disk :: "(path \<times> bytes) list \<Rightarrow> world" where
  "disk fs = \<lparr>files = map_of fs, failing = (\<lambda>call p. None)\<rparr>"

definition fresh :: "world \<Rightarrow> fs_state" where
  "fresh w = \<lparr>now = w, earlier = []\<rparr>"

text \<open>What a path held at every point of a run, oldest first.\<close>

definition observe :: "path \<Rightarrow> fs_state \<Rightarrow> bytes option list" where
  "observe p s = map (\<lambda>w. files w p) (rev (now s # earlier s))"



text \<open>
  The tree without what lies beneath an excluded directory, the paths of all entries of
  a tree walked from a root path, the paths of its files, and the file paths a registry
  records.
\<close>

fun prune :: "dirent \<Rightarrow> dirent" where
  "prune (File n) = File n"
| "prune (Dir n dirs rerr) =
     (if isExcludedDir n then Dir n [] None else Dir n (map prune dirs) rerr)"

fun tree_paths :: "env \<Rightarrow> path \<Rightarrow> dirent \<Rightarrow> path list"
  and entries_paths :: "env \<Rightarrow> path \<Rightarrow> dirent list \<Rightarrow> path list" where
  "tree_paths E p (File n) = [p]"
| "tree_paths E p (Dir n dirs rerr) = p # entries_paths E p dirs"
| "entries_paths E p [] = []"
| "entries_paths E p (d1 # ds) = tree_paths E (Join E p (Name d1)) d1 @ entries_paths E p ds"

fun tree_files :: "env \<Rightarrow> path \<Rightarrow> dirent \<Rightarrow> path list"
  and entries_files :: "env \<Rightarrow> path \<Rightarrow> dirent list \<Rightarrow> path list" where
  "tree_files E p (File n) = [p]"
| "tree_files E p (Dir n dirs rerr) = entries_files E p dirs"
| "entries_files E p [] = []"
| "entries_files E p (d1 # ds) = tree_files E (Join E p (Name d1)) d1 @ entries_files E p ds"

definition recorded :: "TrackFiles \<Rightarrow> path set" where
  "recorded tf = FilePath ` snd ` set tf"

text \<open>
  The repository after a call that may have failed (a failed call changes nothing), and the
  repository right after its initialization.
\<close>

definition after :: "repo \<Rightarrow> error + repo \<Rightarrow> repo" where
  "after r res = (case res of Inl err \<Rightarrow> r | Inr r' \<Rightarrow> r')"

definition fresh_repo :: repo where
  "fresh_repo =
     \<lparr>initialized = True, groupTracker = [], registry = [], history = [], objects = [],
      worktree = []\<rparr>"

section \<open>Theorems\<close>

subsection \<open>Auxiliary facts\<close>

lemmas io_defs = os_WriteFile_def os_Rename_def os_Stat_def os_ReadFile_def os_IsNotExist_def
  CompressFile_def DecompressFile_def step_def put_file_def Let_def

lemmas ref_defs = ref_env_def ref_Unmarshal_def ref_MarshalIndent_def ref_json_def json_member_def NewTrackFile_def
  fresh_def disk_def observe_def QweDir_def FileName_def



lemma healthy_failing: "failing w' = failing w \<Longrightarrow> healthy w \<Longrightarrow> healthy w'"
  by (simp add: healthy_def)


subsection \<open>Loading the registry\<close>




text \<open>
  C2 does not hold of the code. The registry file holds the compressed form of bytes that
  are not JSON (the scenario of the test for invalid JSON). The load decompresses the
  file in place, fails to parse it and returns at once: the file stays on disk in plain
  form. That form is not a compressed file, and the next load fails when it tries to
  decompress it.
\<close>

theorem Load_invalid_json_left_decompressed:
  "LoadTrackedFilesFromFile ref_env ''.qwe/_track_files.qwe''
     (fresh (disk [(''.qwe/_track_files.qwe'', compress ref_env ''not valid json'')])) =
     (Inl (Wrapped ''unmarshal tracked files'' ErrSyntax),
      \<lparr>now = disk [(''.qwe/_track_files.qwe'', ''not valid json'')],
       earlier = [disk [(''.qwe/_track_files.qwe'', compress ref_env ''not valid json'')]]\<rparr>) \<and>
   decompress ref_env ''not valid json'' = Inl ErrCorrupt \<and>
   fst (LoadTrackedFilesFromFile ref_env ''.qwe/_track_files.qwe''
     (fresh (disk [(''.qwe/_track_files.qwe'', ''not valid json'')]))) = Inl ErrCorrupt"
  by (simp add: LoadTrackedFilesFromFile_def io_defs ref_defs fun_eq_iff)

subsection \<open>Writing the registry\<close>

text \<open>
  C3 as stated fails for \<^verbatim>\<open>InitTrackedFiles\<close>: on an empty control directory the
  target path is seen absent, then empty, then complete, then compressed, and the
  temporary sibling path never exists. The empty file is neither the old nor the new
  complete file.
\<close>

theorem Init_direct_write_counterexample:
  "observe ''.qwe/_track_files.qwe''
      (snd (InitTrackedFiles ref_env (fresh (disk [])))) =
     [None, Some [], Some ''{}'', Some (compress ref_env ''{}'')] \<and>
   observe ''.qwe/_track_files.qwe.tmp''
      (snd (InitTrackedFiles ref_env (fresh (disk [])))) =
     [None, None, None, None]"
  by (simp add: InitTrackedFiles_def io_defs ref_defs)

text \<open>
  C3, amended to \<^verbatim>\<open>Save\<close>. Whatever fails, at every point of a \<^verbatim>\<open>Save\<close> the
  target path holds the old file, the new serialized content, or that content compressed.
  When \<^verbatim>\<open>Save\<close> succeeds, the temporary sibling path (target plus ".tmp") is
  created empty, filled with the full content and renamed over the target, which is
  then compressed in place: the target changes only at the rename and at the compression.
\<close>

theorem Save_atomic_write:
  assumes "MarshalIndent E tf = Inr data"
  shows "(\<forall>x \<in> set (observe (Join E QweDir filename) (snd (Save E tf filename (fresh w)))).
            x = files w (Join E QweDir filename) \<or> x = Some data \<or> x = Some (compress E data)) \<and>
         (fst (Save E tf filename (fresh w)) = None \<longrightarrow>
            observe (Join E QweDir filename @ ''.tmp'') (snd (Save E tf filename (fresh w))) =
              [files w (Join E QweDir filename @ ''.tmp''), Some [], Some data, None, None] \<and>
            observe (Join E QweDir filename) (snd (Save E tf filename (fresh w))) =
              [files w (Join E QweDir filename), files w (Join E QweDir filename),
               files w (Join E QweDir filename), Some data, Some (compress E data)])"
  using assms
  by (auto simp add: Save_def io_defs fresh_def observe_def split: option.splits)

theorem Save_atomic_write_witness:
  "fst (Save ref_env [(''file1'', NewTrackFile ''/path/to/file1.txt'')] FileName
         (fresh (disk [(''.qwe/_track_files.qwe'', ''Z{}'')]))) = None \<and>
   observe ''.qwe/_track_files.qwe.tmp''
     (snd (Save ref_env [(''file1'', NewTrackFile ''/path/to/file1.txt'')] FileName
         (fresh (disk [(''.qwe/_track_files.qwe'', ''Z{}'')])))) =
     [None, Some [], Some (ref_json [(''file1'', NewTrackFile ''/path/to/file1.txt'')]), None, None] \<and>
   observe ''.qwe/_track_files.qwe''
     (snd (Save ref_env [(''file1'', NewTrackFile ''/path/to/file1.txt'')] FileName
         (fresh (disk [(''.qwe/_track_files.qwe'', ''Z{}'')])))) =
     [Some ''Z{}'', Some ''Z{}'', Some ''Z{}'',
      Some (ref_json [(''file1'', NewTrackFile ''/path/to/file1.txt'')]),
      Some (CHR ''Z'' # ref_json [(''file1'', NewTrackFile ''/path/to/file1.txt'')])]"
proof -
  have m: "MarshalIndent ref_env [(''file1'', NewTrackFile ''/path/to/file1.txt'')] =
      Inr (ref_json [(''file1'', NewTrackFile ''/path/to/file1.txt'')])"
    by (simp add: ref_env_def ref_MarshalIndent_def)
  have ok: "fst (Save ref_env [(''file1'', NewTrackFile ''/path/to/file1.txt'')] FileName
         (fresh (disk [(''.qwe/_track_files.qwe'', ''Z{}'')]))) = None"
    by (simp add: Save_def io_defs ref_defs)
  from Save_atomic_write [OF m, of FileName "disk [(''.qwe/_track_files.qwe'', ''Z{}'')]"] ok
  show ?thesis by (simp add: ref_env_def QweDir_def FileName_def disk_def)
qed





subsection \<open>Scanning\<close>

lemma Name_prune [simp]: "Name (prune d) = Name d"
  by (cases d) simp_all

lemma IsDir_prune [simp]: "IsDir (prune d) = IsDir d"
  by (cases d) simp_all

lemma invoke_walkFn_Dir:
  "invoke (walkFn E K) p (Some (Dir n dirs rerr)) err st =
   invoke (walkFn E K) p (Some (Dir n dirs' rerr')) err st"
  by (cases err) (simp_all add: invoke_def walkFn_def)

lemma invoke_excluded:
  "isExcludedDir n \<Longrightarrow>
     invoke (walkFn E K) p (Some (Dir n dirs rerr)) None st = (Some SkipDir, (fst st, snd st @ [p]))"
  by (simp add: invoke_def walkFn_def)

lemma walk_prune:
  "walkDir E (walkFn E K) p (prune d) st = walkDir E (walkFn E K) p d st"
  "walkEntries E (walkFn E K) p (map prune ds) st = walkEntries E (walkFn E K) p ds st"
proof (induction E "walkFn E K" p d st and E "walkFn E K" p ds st
    rule: walkDir_walkEntries.induct)
  case (1 E p n st)
  then show ?case by simp
next
  case (2 E p n dirs rerr st)
  show ?case
  proof (cases "isExcludedDir n")
    case True
    then show ?thesis by (simp add: invoke_excluded)
  next
    case False
    have i: "invoke (walkFn E K) p (Some (Dir n (map prune dirs) r)) e st' =
             invoke (walkFn E K) p (Some (Dir n dirs r)) e st'" for e st' r
      by (rule invoke_walkFn_Dir)
    from False 2 show ?thesis
      by (auto simp add: i split: prod.splits option.splits) metis
  qed
next
  case (3 E p st)
  then show ?case by simp
next
  case (4 E p d1 ds st)
  then show ?case
    by (auto split: prod.splits option.splits)
qed

lemma set_update_subset: "set (AList.update k v al) \<subseteq> insert (k, v) (set al)"
  by (induction al) auto

lemma recorded_update:
  "recorded (AList.update k (NewTrackFile p) tf) \<subseteq> insert p (recorded tf)"
proof -
  have "FilePath ` snd ` set (AList.update k (NewTrackFile p) tf)
          \<subseteq> FilePath ` snd ` insert (k, NewTrackFile p) (set tf)"
    using set_update_subset [of k "NewTrackFile p" tf] by blast
  then show ?thesis by (simp add: recorded_def NewTrackFile_def)
qed

lemma invoke_dir_bounds:
  assumes "invoke (walkFn E K) p (Some (Dir n dirs rerr)) err st = (r, st')"
  shows "snd st' = snd st @ [p] \<and> fst st' = fst st"
  using assms by (cases err) (auto simp add: invoke_def walkFn_def split: if_splits)

lemma invoke_file_bounds:
  assumes "invoke (walkFn E K) p (Some (File n)) None st = (r, st')"
  shows "snd st' = snd st @ [p] \<and> recorded (fst st') \<subseteq> insert p (recorded (fst st))"
  using assms recorded_update [of "Hasher E n" p "fst st"]
  by (auto simp add: invoke_def walkFn_def Let_def split: if_splits)

lemma walk_bounds:
  "\<forall>r st'. walkDir E (walkFn E K) p d st = (r, st') \<longrightarrow>
      set (snd st') \<subseteq> set (snd st) \<union> set (tree_paths E p d) \<and>
      recorded (fst st') \<subseteq> recorded (fst st) \<union> set (tree_files E p d)"
  "\<forall>r st'. walkEntries E (walkFn E K) p ds st = (r, st') \<longrightarrow>
      set (snd st') \<subseteq> set (snd st) \<union> set (entries_paths E p ds) \<and>
      recorded (fst st') \<subseteq> recorded (fst st) \<union> set (entries_files E p ds)"
proof (induction E "walkFn E K" p d st and E "walkFn E K" p ds st
    rule: walkDir_walkEntries.induct)
  case (1 E p n st)
  show ?case
  proof (intro allI impI)
    fix r st'
    assume "walkDir E (walkFn E K) p (File n) st = (r, st')"
    then have "invoke (walkFn E K) p (Some (File n)) None st = (r, st')" by simp
    from invoke_file_bounds [OF this]
    show "set (snd st') \<subseteq> set (snd st) \<union> set (tree_paths E p (File n)) \<and>
          recorded (fst st') \<subseteq> recorded (fst st) \<union> set (tree_files E p (File n))"
      by auto
  qed
next
  case (2 E p n dirs rerr st)
  show ?case
  proof (intro allI impI)
    fix r st'
    assume w: "walkDir E (walkFn E K) p (Dir n dirs rerr) st = (r, st')"
    obtain r1 st1 where i1: "invoke (walkFn E K) p (Some (Dir n dirs rerr)) None st = (r1, st1)"
      by (metis surj_pair)
    from invoke_dir_bounds [OF i1]
    have b1: "snd st1 = snd st @ [p]" "fst st1 = fst st" by simp_all
    show "set (snd st') \<subseteq> set (snd st) \<union> set (tree_paths E p (Dir n dirs rerr)) \<and>
          recorded (fst st') \<subseteq> recorded (fst st) \<union> set (tree_files E p (Dir n dirs rerr))"
    proof (cases r1)
      case (Some e1)
      with w i1 have "st' = st1" by (auto split: if_splits)
      with b1 show ?thesis by auto
    next
      case None
      show ?thesis
      proof (cases rerr)
        case rn: None
        with w i1 None have e: "walkEntries E (walkFn E K) p dirs st1 = (r, st')" by simp
        from 2(1) [OF i1 [symmetric] None rn] e
        have "set (snd st') \<subseteq> set (snd st1) \<union> set (entries_paths E p dirs) \<and>
              recorded (fst st') \<subseteq> recorded (fst st1) \<union> set (entries_files E p dirs)"
          by blast
        with b1 show ?thesis by auto
      next
        case rs: (Some e)
        obtain r2 st2 where
          i2: "invoke (walkFn E K) p (Some (Dir n dirs rerr)) (Some e) st1 = (r2, st2)"
          by (metis surj_pair)
        from invoke_dir_bounds [OF i2]
        have b2: "snd st2 = snd st1 @ [p]" "fst st2 = fst st1" by simp_all
        show ?thesis
        proof (cases r2)
          case s2: (Some e2)
          with w i1 i2 None rs have "st' = st2" by (auto split: if_splits)
          with b1 b2 show ?thesis by auto
        next
          case n2: None
          with w i1 i2 None rs have e: "walkEntries E (walkFn E K) p dirs st2 = (r, st')"
            by simp
          from i2 rs have i2': "(r2, st2) =
              invoke (walkFn E K) p (Some (Dir n dirs rerr)) (Some e) st1" by simp
          from 2(2) [OF i1 [symmetric] None rs i2' n2] e
          have "set (snd st') \<subseteq> set (snd st2) \<union> set (entries_paths E p dirs) \<and>
                recorded (fst st') \<subseteq> recorded (fst st2) \<union> set (entries_files E p dirs)"
            by blast
          with b1 b2 show ?thesis by auto
        qed
      qed
    qed
  qed
next
  case (3 E p st)
  then show ?case by simp
next
  case (4 E p d1 ds st)
  show ?case
  proof (intro allI impI)
    fix r st'
    assume w: "walkEntries E (walkFn E K) p (d1 # ds) st = (r, st')"
    obtain r1 st1 where d: "walkDir E (walkFn E K) (Join E p (Name d1)) d1 st = (r1, st1)"
      by (metis surj_pair)
    from 4(1) d
    have b1: "set (snd st1) \<subseteq> set (snd st) \<union> set (tree_paths E (Join E p (Name d1)) d1)"
      "recorded (fst st1) \<subseteq> recorded (fst st) \<union> set (tree_files E (Join E p (Name d1)) d1)"
      by blast+
    show "set (snd st') \<subseteq> set (snd st) \<union> set (entries_paths E p (d1 # ds)) \<and>
          recorded (fst st') \<subseteq> recorded (fst st) \<union> set (entries_files E p (d1 # ds))"
    proof (cases r1)
      case (Some e1)
      with w d have "st' = st1" by (auto split: if_splits)
      with b1 show ?thesis by auto
    next
      case None
      with w d have e: "walkEntries E (walkFn E K) p ds st1 = (r, st')" by simp
      from 4(2) [OF d [symmetric] None] e
      have "set (snd st') \<subseteq> set (snd st1) \<union> set (entries_paths E p ds) \<and>
            recorded (fst st') \<subseteq> recorded (fst st1) \<union> set (entries_files E p ds)"
        by blast
      with b1 show ?thesis by auto
    qed
  qed
qed

lemmas walk_defs = findTrackedFilesInCurrDir_def WalkDir_def walkFn_def invoke_def isExcludedDir_def
  excludedDirs_def os_IsPermission_def ref_env_def NewTrackFile_def Let_def

text \<open>
  C9. The scan of a directory tree is the scan of the tree from which everything beneath
  an excluded directory (\<^verbatim>\<open>.git\<close>, \<^verbatim>\<open>.qwe\<close>) has been removed: same registry, same
  error, same sequence of visited paths. Every visited path is the path of an entry that
  is not beneath an excluded directory, and every recorded file path is the path of such
  a file.
\<close>

theorem scan_skips_excluded:
  "findTrackedFilesInCurrDir E getTracker dir (Inr tree) =
     findTrackedFilesInCurrDir E getTracker dir (Inr (prune tree)) \<and>
   set (snd (findTrackedFilesInCurrDir E getTracker dir (Inr tree))) \<subseteq>
     set (tree_paths E dir (prune tree)) \<and>
   (\<forall>tf. fst (findTrackedFilesInCurrDir E getTracker dir (Inr tree)) = Inr tf \<longrightarrow>
      recorded tf \<subseteq> set (tree_files E dir (prune tree)))"
proof (cases getTracker)
  case (Inl e)
  then show ?thesis by (simp add: findTrackedFilesInCurrDir_def)
next
  case (Inr K)
  have eq: "findTrackedFilesInCurrDir E getTracker dir (Inr tree) =
     findTrackedFilesInCurrDir E getTracker dir (Inr (prune tree))"
    using Inr by (simp add: findTrackedFilesInCurrDir_def WalkDir_def walk_prune)
  obtain r st' where w: "walkDir E (walkFn E K) dir (prune tree) ([], []) = (r, st')"
    by (metis surj_pair)
  from walk_bounds(1) [of E K dir "prune tree" "([], [])", rule_format, OF w]
  have b: "set (snd st') \<subseteq> set (tree_paths E dir (prune tree))"
    "recorded (fst st') \<subseteq> set (tree_files E dir (prune tree))"
    by (simp_all add: recorded_def)
  have "set (snd (findTrackedFilesInCurrDir E getTracker dir (Inr (prune tree)))) \<subseteq>
      set (tree_paths E dir (prune tree)) \<and>
    (\<forall>tf. fst (findTrackedFilesInCurrDir E getTracker dir (Inr (prune tree))) = Inr tf \<longrightarrow>
      recorded tf \<subseteq> set (tree_files E dir (prune tree)))"
    using Inr w b
    by (auto simp add: findTrackedFilesInCurrDir_def WalkDir_def split: option.splits if_splits)
  with eq show ?thesis by simp
qed

theorem scan_skips_excluded_witness:
  "findTrackedFilesInCurrDir ref_env (Inr {''#a.txt'', ''#config'', ''#b.go''}) ''/w''
     (Inr (Dir ''w''
        [Dir ''.git'' [File ''config'', File ''a.txt''] None,
         Dir ''.qwe'' [File ''_track_files.qwe''] None,
         File ''a.txt'',
         Dir ''src'' [File ''b.go''] None] None)) =
     (Inr [(''#a.txt'', NewTrackFile ''/w/a.txt''), (''#b.go'', NewTrackFile ''/w/src/b.go'')],
      [''/w'', ''/w/.git'', ''/w/.qwe'', ''/w/a.txt'', ''/w/src'', ''/w/src/b.go'']) \<and>
   recorded [(''#a.txt'', NewTrackFile ''/w/a.txt''), (''#b.go'', NewTrackFile ''/w/src/b.go'')] \<subseteq>
     set (tree_files ref_env ''/w''
       (prune (Dir ''w''
        [Dir ''.git'' [File ''config'', File ''a.txt''] None,
         Dir ''.qwe'' [File ''_track_files.qwe''] None,
         File ''a.txt'',
         Dir ''src'' [File ''b.go''] None] None)))"
proof -
  let ?T = "Dir ''w''
        [Dir ''.git'' [File ''config'', File ''a.txt''] None,
         Dir ''.qwe'' [File ''_track_files.qwe''] None,
         File ''a.txt'',
         Dir ''src'' [File ''b.go''] None] None"
  have e: "findTrackedFilesInCurrDir ref_env (Inr {''#a.txt'', ''#config'', ''#b.go''}) ''/w'' (Inr ?T) =
     (Inr [(''#a.txt'', NewTrackFile ''/w/a.txt''), (''#b.go'', NewTrackFile ''/w/src/b.go'')],
      [''/w'', ''/w/.git'', ''/w/.qwe'', ''/w/a.txt'', ''/w/src'', ''/w/src/b.go''])"
    by (simp add: walk_defs)
  from scan_skips_excluded [of ref_env "Inr {''#a.txt'', ''#config'', ''#b.go''}" "''/w''" ?T] e
  show ?thesis by simp
qed

subsection \<open>Groups and diffs\<close>

text \<open>
  C4. Before the repository is initialized \<^verbatim>\<open>GroupInit\<close> fails with RepoNotFound. In
  an initialized repository a second \<^verbatim>\<open>GroupInit\<close> of the same name fails with
  GroupAlreadyTracked. After the first call on a name that was not tracked, the group
  has exactly one version, with the message "Initial Tracking" and no files, which is
  the current one, and a version order of length one.
\<close>

theorem GroupInit_once_then_tracked:
  "(\<not> initialized r \<longrightarrow> GroupInit E vid stamp n r = Inl RepoNotFound) \<and>
   (initialized r \<longrightarrow>
      GroupInit E vid' stamp' n (after r (GroupInit E vid stamp n r)) = Inl GrpAlreadyTracked) \<and>
   (initialized r \<and> map_of (groupTracker r) (Hasher E n) = None \<longrightarrow>
      (\<exists>r' g v. GroupInit E vid stamp n r = Inr r' \<and>
         map_of (groupTracker r') (Hasher E n) = Some g \<and>
         GroupName g = n \<and>
         Versions g = [(vid, v)] \<and> CommitMessage v = ''Initial Tracking'' \<and> Files v = [] \<and>
         Current g = vid \<and> VersionOrder g = [vid] \<and> length (VersionOrder g) = 1))"
  by (auto simp add: GroupInit_def after_def Let_def update_conv' split: option.splits)

theorem GroupInit_once_then_tracked_witness:
  "GroupInit ref_env ''v1'' ''2026-01-01 10:00'' ''test-group'' (fresh_repo\<lparr>initialized := False\<rparr>) =
     Inl RepoNotFound \<and>
   GroupInit ref_env ''v2'' ''2026-01-01 10:05'' ''test-group''
     (after fresh_repo (GroupInit ref_env ''v1'' ''2026-01-01 10:00'' ''test-group'' fresh_repo)) =
     Inl GrpAlreadyTracked \<and>
   map_of (groupTracker
       (after fresh_repo (GroupInit ref_env ''v1'' ''2026-01-01 10:00'' ''test-group'' fresh_repo)))
     (Hasher ref_env ''test-group'') =
     Some \<lparr>GroupID = ''#test-group'', GroupName = ''test-group'',
            Versions = [(''v1'', \<lparr>VersionID = ''v1'', CommitMessage = ''Initial Tracking'',
                                  TimeStamp = ''2026-01-01 10:00'', Files = []\<rparr>)],
            VersionOrder = [''v1''], Current = ''v1''\<rparr>"
  using GroupInit_once_then_tracked [of "fresh_repo\<lparr>initialized := False\<rparr>" ref_env
      "''v1''" "''2026-01-01 10:00''" "''test-group''" "''v2''" "''2026-01-01 10:05''"]
    GroupInit_once_then_tracked [of fresh_repo ref_env
      "''v1''" "''2026-01-01 10:00''" "''test-group''" "''v2''" "''2026-01-01 10:05''"]
  by (simp add: fresh_repo_def GroupInit_def after_def ref_env_def Let_def)

text \<open>
  C5. \<^verbatim>\<open>Diff\<close> fails with ArgumentMismatch exactly when one version id is empty and
  the other is not; with both empty or both given it does not fail on the shape of its
  arguments.
\<close>

theorem Diff_argument_shape:
  "(Diff E filePath a b r = Inl ArgumentMismatch) = ((a = []) \<noteq> (b = []))"
  by (auto simp add: Diff_def Let_def snapshotAt_def get_object_def split: option.splits sum.splits)

theorem Diff_argument_shape_witness:
  "Diff ref_env ''test.txt'' [] ''1'' (fresh_repo\<lparr>initialized := False\<rparr>) = Inl ArgumentMismatch \<and>
   Diff ref_env ''test.txt'' ''1'' [] (fresh_repo\<lparr>initialized := False\<rparr>) = Inl ArgumentMismatch \<and>
   Diff ref_env ''test.txt'' [] [] (fresh_repo\<lparr>initialized := False\<rparr>) \<noteq> Inl ArgumentMismatch \<and>
   Diff ref_env ''test.txt'' ''1'' ''2'' (fresh_repo\<lparr>initialized := False\<rparr>) \<noteq> Inl ArgumentMismatch"
  using Diff_argument_shape [of ref_env "''test.txt''" "[]" "''1''" "fresh_repo\<lparr>initialized := False\<rparr>"]
    Diff_argument_shape [of ref_env "''test.txt''" "''1''" "[]" "fresh_repo\<lparr>initialized := False\<rparr>"]
    Diff_argument_shape [of ref_env "''test.txt''" "[]" "[]" "fresh_repo\<lparr>initialized := False\<rparr>"]
    Diff_argument_shape [of ref_env "''test.txt''" "''1''" "''2''" "fresh_repo\<lparr>initialized := False\<rparr>"]
  by simp

text \<open>
  C6. In an initialized repository, with both version ids empty or both given,
  \<^verbatim>\<open>Diff\<close> on a file whose identifier has no record in the Tracker Registry fails with
  FileNotTracked.
\<close>

theorem Diff_untracked_file:
  "initialized r \<and> (a = []) = (b = []) \<and> map_of (registry r) (identify E filePath) = None \<longrightarrow>
     Diff E filePath a b r = Inl FileNotTracked"
  by (auto simp add: Diff_def Let_def)

theorem Diff_untracked_file_witness:
  "Diff ref_env ''/tmp/qwe-test/untracked.txt'' [] [] fresh_repo = Inl FileNotTracked"
  using Diff_untracked_file [of fresh_repo "[]" "[]" ref_env "''/tmp/qwe-test/untracked.txt''"]
  by (simp add: fresh_repo_def)

subsection \<open>Rendering\<close>

text \<open>
  C10. A commit message longer than 60 bytes is rendered as its first 57 bytes followed
  by three dots; a message of at most 60 bytes is rendered unchanged.
\<close>

theorem truncateMsg_rendering:
  "(60 < length msg \<longrightarrow> truncateMsg msg = take 57 msg @ ''...'') \<and>
   (length msg \<le> 60 \<longrightarrow> truncateMsg msg = msg)"
  by (simp add: truncateMsg_def MaxCommitMessageLen_def CommitMessageTruncLen_def)

theorem truncateMsg_rendering_witness:
  "truncateMsg (replicate 61 (CHR ''a'')) = replicate 57 (CHR ''a'') @ ''...'' \<and>
   truncateMsg ''Initial Tracking'' = ''Initial Tracking''"
  using truncateMsg_rendering [of "replicate 61 (CHR ''a'')"]
    truncateMsg_rendering [of "''Initial Tracking''"]
  by simp

end
